theory Spec2Isabelle
  imports Complex_Main "HOL-Library.Product_Lexorder" "HOL-Library.Log_Nat"
begin

section \<open>Low-stock alert pipeline: the arithmetic helpers\<close>

text \<open>
  The helpers of \<^verbatim>\<open>lowstocklert.py\<close> work on Python integers (\<open>int\<close>) and on an average
  of daily sales, a Python float: the quotient \<open>total_quantity / days\<close> of two integers.
  A float is modelled by the rational number it stands for, and every operation that
  rounds is written out with \<open>round_to_double\<close>. An absent value (Python's \<open>None\<close>) is
  \<open>None\<close>.
\<close>

subsection \<open>Double precision\<close>

definition round_half_even :: "rat \<Rightarrow> int" where
  \<comment> \<open>the nearest integer, a tie going to the even one\<close>
  "round_half_even q =
     (let f = \<lfloor>q\<rfloor>; r = q - of_int f
      in if r < 1 / 2 then f
         else if 1 / 2 < r then f + 1
         else if even f then f else f + 1)"

definition pow2 :: "int \<Rightarrow> rat" where
  "pow2 e = (if 0 \<le> e then 2 ^ nat e else 1 / 2 ^ nat (- e))"

definition binary_exponent :: "rat \<Rightarrow> int" where
  \<comment> \<open>for \<open>a > 0\<close>: the \<open>e\<close> with \<open>2 ^ e \<le> a < 2 ^ (e + 1)\<close>\<close>
  "binary_exponent a =
     (case quotient_of a of (n, d) \<Rightarrow>
        let e = bitlen n - bitlen d in if pow2 e \<le> a then e else e - 1)"

definition round_to_double :: "rat \<Rightarrow> rat" where
  \<comment> \<open>IEEE 754 binary64, round to nearest, ties to even: 53 significant bits, and a
      fixed step of \<open>2 ^ -1074\<close> below \<open>2 ^ -1022\<close>. A result of magnitude \<open>2 ^ 1024\<close> or
      more is an infinity in Python, on which \<open>int()\<close> raises; that overflow is outside this
      function.\<close>
  "round_to_double q =
     (if q = 0 then 0
      else let a = \<bar>q\<bar>;
               e = max (binary_exponent a) (- 1022);
               m = round_half_even (a * pow2 (52 - e))
           in sgn q * of_int m * pow2 (e - 52))"

definition float_div :: "rat \<Rightarrow> rat \<Rightarrow> rat" where
  \<comment> \<open>\<open>x / y\<close> on two floats, \<open>y\<close> not zero\<close>
  "float_div x y = round_to_double (x / y)"

definition float_of_int :: "int \<Rightarrow> rat" where
  \<comment> \<open>the conversion of an integer operand to a float\<close>
  "float_of_int n = round_to_double (of_int n)"


subsection \<open>The helper functions\<close>

definition py_int :: "rat \<Rightarrow> int" where
  \<comment> \<open>Python's \<open>int(x)\<close> on a number: truncation toward zero.\<close>
  "py_int q = (if 0 \<le> q then \<lfloor>q\<rfloor> else \<lceil>q\<rceil>)"

definition calculate_days_until_stockout :: "int \<Rightarrow> rat option \<Rightarrow> int option" where
  \<comment> \<open>\<open>current_stock / avg_daily_sales\<close> divides an integer by a float. When the quotient
      reaches \<open>2 ^ 1024\<close> the division gives an infinity and \<open>int()\<close> raises
      \<open>OverflowError\<close>; the result type has no place for that, and the statements about
      the division exclude it. In the endpoint the average is at least \<open>1 / 30\<close>.\<close>
  "calculate_days_until_stockout current_stock avg_daily_sales =
     (case avg_daily_sales of
        None \<Rightarrow> None
      | Some a \<Rightarrow>
          if a \<le> 0 then None
          else if current_stock \<le> 0 then Some 0
          else Some (py_int (float_div (float_of_int current_stock) a)))"

definition calculate_urgency :: "int option \<Rightarrow> int \<Rightarrow> string" where
  "calculate_urgency days_until_stockout current_stock =
     (if current_stock \<le> 0 then ''critical''
      else case days_until_stockout of
        None \<Rightarrow> ''low''
      | Some d \<Rightarrow>
          if d \<le> 3 then ''critical''
          else if d \<le> 7 then ''high''
          else if d \<le> 14 then ''medium''
          else ''low'')"

text \<open>
  The supplier dictionary built by \<open>get_preferred_supplier\<close>. The relation's columns
  \<open>minimum_order_quantity\<close> and \<open>cost_price\<close> may be NULL.
\<close>

record supplier_info =
  supplier_id :: int
  supplier_name :: string
  contact_email :: string
  contact_phone :: string
  lead_time_days :: int
  minimum_order_quantity :: "int option"
  cost_price :: "rat option"

definition truthy_int :: "int option \<Rightarrow> bool" where
  \<comment> \<open>Python's truth value of an optional integer: \<open>None\<close> and \<open>0\<close> are false.\<close>
  "truthy_int v = (case v of None \<Rightarrow> False | Some n \<Rightarrow> n \<noteq> 0)"

definition calculate_reorder_quantity :: "int \<Rightarrow> int \<Rightarrow> supplier_info option \<Rightarrow> int" where
  "calculate_reorder_quantity threshold current_stock supplier =
     (let target_stock = threshold * 2;
          needed = target_stock - current_stock;
          needed = (case supplier of
                      None \<Rightarrow> needed
                    | Some s \<Rightarrow>
                        if truthy_int (minimum_order_quantity s)
                        then (case minimum_order_quantity s of
                                Some moq \<Rightarrow> if needed < moq then moq else needed
                              | None \<Rightarrow> needed)
                        else needed)
      in max 10 (((needed + 9) div 10) * 10))"

section \<open>The data source\<close>

text \<open>
  The tables the endpoint reads, as lists of rows. Timestamps are seconds on a common
  clock (\<open>int\<close>); \<open>last_counted_at\<close> holds the already formatted ISO string.
\<close>

record organization =
  org_id :: int
  org_is_active :: bool

record product =
  prod_id :: int
  prod_organization_id :: int
  prod_name :: string
  prod_sku :: string
  prod_category :: string
  prod_low_stock_threshold :: int
  prod_is_deleted :: bool

record warehouse =
  wh_id :: int
  wh_name :: string
  wh_is_active :: bool

record inventory =
  inv_product_id :: int
  inv_warehouse_id :: int
  inv_quantity_available :: int
  inv_last_counted_at :: "string option"

record supplier =
  sup_id :: int
  sup_name :: string
  sup_contact_email :: string
  sup_contact_phone :: string
  sup_is_active :: bool

record product_supplier =
  ps_product_id :: int
  ps_supplier_id :: int
  ps_is_preferred :: bool
  ps_lead_time_days :: int
  ps_minimum_order_quantity :: "int option"
  ps_cost_price :: "rat option"

record sales_order =
  so_id :: int
  so_organization_id :: int
  so_order_date :: int
  so_status :: string

record sales_order_item =
  soi_order_id :: int
  soi_product_id :: int
  soi_warehouse_id :: int
  soi_quantity :: int

record database =
  organizations :: "organization list"
  products :: "product list"
  warehouses :: "warehouse list"
  inventories :: "inventory list"
  suppliers :: "supplier list"
  product_suppliers :: "product_supplier list"
  sales_orders :: "sales_order list"
  sales_order_items :: "sales_order_item list"

definition first :: "'a list \<Rightarrow> 'a option" where
  \<comment> \<open>the query method \<open>.first()\<close>: the first row, or \<open>None\<close>\<close>
  "first rows = (case rows of [] \<Rightarrow> None | r # _ \<Rightarrow> Some r)"

definition supplier_relations :: "database \<Rightarrow> int \<Rightarrow> bool \<Rightarrow> (product_supplier \<times> supplier) list" where
  \<comment> \<open>\<open>ProductSupplier\<close> joined with the active \<open>Supplier\<close> rows, for one product;
      with \<open>preferred_only\<close> the filter \<open>is_preferred=True\<close> is added\<close>
  "supplier_relations d product_id preferred_only =
     concat (map (\<lambda>ps.
        map (\<lambda>s. (ps, s))
          (filter (\<lambda>s. sup_id s = ps_supplier_id ps \<and> sup_is_active s) (suppliers d)))
       (filter (\<lambda>ps. ps_product_id ps = product_id
                  \<and> (if preferred_only then ps_is_preferred ps else True))
          (product_suppliers d)))"

definition supplier_dict :: "product_supplier \<times> supplier \<Rightarrow> supplier_info" where
  "supplier_dict r =
     (case r of (ps, s) \<Rightarrow>
       \<lparr> supplier_id = sup_id s,
         supplier_name = sup_name s,
         contact_email = sup_contact_email s,
         contact_phone = sup_contact_phone s,
         lead_time_days = ps_lead_time_days ps,
         minimum_order_quantity = ps_minimum_order_quantity ps,
         cost_price = (case ps_cost_price ps of
                         None \<Rightarrow> None
                       | Some c \<Rightarrow> if c = 0 then None else Some c) \<rparr>)"

definition get_preferred_supplier :: "database \<Rightarrow> int \<Rightarrow> supplier_info option" where
  "get_preferred_supplier d product_id =
     (case first (supplier_relations d product_id True) of
        Some r \<Rightarrow> Some (supplier_dict r)
      | None \<Rightarrow>
          (case first (supplier_relations d product_id False) of
             Some r \<Rightarrow> Some (supplier_dict r)
           | None \<Rightarrow> None))"

definition confirmed_quantities :: "database \<Rightarrow> int \<Rightarrow> int \<Rightarrow> int \<times> int \<Rightarrow> int list" where
  \<comment> \<open>the quantities of one (product, warehouse) group of the sales query: items of
      orders of the organization, dated at or after the cutoff, with a confirmed status\<close>
  "confirmed_quantities d organization_id cutoff_date k =
     concat (map (\<lambda>i.
        map (\<lambda>ord. soi_quantity i)
          (filter (\<lambda>ord. so_id ord = soi_order_id i
                      \<and> so_organization_id ord = organization_id
                      \<and> cutoff_date \<le> so_order_date ord
                      \<and> so_status ord \<in> set [''completed'', ''shipped'', ''delivered''])
             (sales_orders d)))
       (filter (\<lambda>i. (soi_product_id i, soi_warehouse_id i) = k) (sales_order_items d)))"

definition get_recent_sales_data :: "database \<Rightarrow> int \<Rightarrow> int \<Rightarrow> int \<Rightarrow> (int \<times> int) \<rightharpoonup> rat" where
  \<comment> \<open>a group exists when a row falls into it; its value is \<open>total_quantity / days\<close>, the
      true division of two integers, which gives the float nearest to the quotient\<close>
  "get_recent_sales_data d utcnow organization_id days =
     (\<lambda>k. let qs = confirmed_quantities d organization_id (utcnow - days * 86400) k
          in if qs = [] then None
             else Some (round_to_double (of_int (sum_list qs) / of_int days)))"

text \<open>The rows of the low-stock query (step 5 of the endpoint).\<close>

record stock_item =
  item_product_id :: int
  item_product_name :: string
  item_sku :: string
  item_low_stock_threshold :: int
  item_category :: string
  item_warehouse_id :: int
  item_warehouse_name :: string
  item_current_stock :: int
  item_last_counted_at :: "string option"

definition stock_row :: "inventory \<Rightarrow> product \<Rightarrow> warehouse \<Rightarrow> stock_item" where
  "stock_row i p w =
     \<lparr> item_product_id = prod_id p,
       item_product_name = prod_name p,
       item_sku = prod_sku p,
       item_low_stock_threshold = prod_low_stock_threshold p,
       item_category = prod_category p,
       item_warehouse_id = inv_warehouse_id i,
       item_warehouse_name = wh_name w,
       item_current_stock = inv_quantity_available i,
       item_last_counted_at = inv_last_counted_at i \<rparr>"

definition low_stock_query :: "database \<Rightarrow> int \<Rightarrow> rat \<Rightarrow> stock_item list" where
  \<comment> \<open>\<open>Inventory\<close> joined with \<open>Product\<close> and \<open>Warehouse\<close>, with the four filters; the
      multiplier is a float parameter, so the product and the comparison are in double
      precision\<close>
  "low_stock_query d company_id threshold_multiplier =
     concat (map (\<lambda>i.
       concat (map (\<lambda>p.
         map (\<lambda>w. stock_row i p w)
           (filter (\<lambda>w. inv_warehouse_id i = wh_id w \<and> wh_is_active w) (warehouses d)))
         (filter (\<lambda>p. inv_product_id i = prod_id p
                     \<and> prod_organization_id p = company_id
                     \<and> \<not> prod_is_deleted p
                     \<and> float_of_int (inv_quantity_available i)
                          < round_to_double
                              (float_of_int (prod_low_stock_threshold p) * threshold_multiplier))
            (products d))))
       (inventories d))"

definition truthy_id :: "int option \<Rightarrow> bool" where
  \<comment> \<open>\<open>if warehouse_id:\<close> is false for \<open>None\<close> and for \<open>0\<close>\<close>
  "truthy_id v = (case v of None \<Rightarrow> False | Some n \<Rightarrow> n \<noteq> 0)"

definition filter_by_warehouse :: "int option \<Rightarrow> stock_item list \<Rightarrow> stock_item list" where
  "filter_by_warehouse warehouse_id rows =
     (if truthy_id warehouse_id
      then filter (\<lambda>r. Some (item_warehouse_id r) = warehouse_id) rows
      else rows)"

section \<open>The endpoint \<open>get_low_stock_alerts\<close>\<close>

text \<open>The alert dictionary of step 9 and the response of step 11.\<close>

record alert =
  alert_product_id :: int
  alert_product_name :: string
  alert_sku :: string
  alert_category :: string
  alert_warehouse_id :: int
  alert_warehouse_name :: string
  alert_current_stock :: int
  alert_threshold :: int
  alert_days_until_stockout :: "int option"
  alert_avg_daily_sales :: "rat option"
  alert_last_counted_at :: "string option"
  alert_supplier :: "supplier_info option"
  alert_urgency :: string
  alert_recommended_reorder_quantity :: int

record parameters =
  param_organization_id :: int
  param_warehouse_id :: "int option"
  param_threshold_multiplier :: rat
  param_include_no_sales :: bool
  param_sales_period_days :: int

record envelope =
  resp_alerts :: "alert list"
  resp_total_alerts :: nat
  resp_generated_at :: int
  resp_parameters :: parameters

datatype body =
    ErrorBody string
  | InternalErrorBody string string string
  | AlertsBody envelope

type_synonym response = "body \<times> int"

text \<open>
  The Redis client. The key is the formatted string
  \<^verbatim>\<open>low_stock_alerts:{company_id}:{warehouse_id}:{threshold_multiplier}:{include_no_sales}\<close>,
  modelled by the four values it is formatted from. An entry holds the time at which it
  expires and the stored response (the JSON text, read back by \<open>json.loads\<close>). A client
  whose calls raise is described by the two flags.
\<close>

datatype cache_key = LowStockAlertsKey int "int option" rat bool

record redis =
  entries :: "(cache_key \<times> (int \<times> envelope)) list"
  get_raises :: bool
  setex_raises :: bool

datatype exn = CacheError | DataSourceError

definition redis_get :: "redis \<Rightarrow> int \<Rightarrow> cache_key \<Rightarrow> exn + envelope option" where
  "redis_get r utcnow k =
     (if get_raises r then Inl CacheError
      else Inr (case map_of (entries r) k of
                  None \<Rightarrow> None
                | Some (expires_at, v) \<Rightarrow> if utcnow < expires_at then Some v else None))"

definition redis_setex :: "redis \<Rightarrow> int \<Rightarrow> cache_key \<Rightarrow> int \<Rightarrow> envelope \<Rightarrow> exn + redis" where
  "redis_setex r utcnow k ttl v =
     (if setex_raises r then Inl CacheError
      else Inr (r\<lparr>entries := (k, (utcnow + ttl, v)) # filter (\<lambda>e. fst e \<noteq> k) (entries r)\<rparr>))"

text \<open>The caller, the parsed query string and the surroundings of one request.\<close>

record user =
  user_id :: int
  accessible_organizations :: "int list"

definition has_access_to_organization :: "user \<Rightarrow> int \<Rightarrow> bool" where
  "has_access_to_organization u company_id = (company_id \<in> set (accessible_organizations u))"

record request_args =
  arg_warehouse_id :: "int option"
  arg_threshold_multiplier :: "rat option"
  arg_include_no_sales :: "string option"
  arg_limit :: "int option"

record environment =
  current_user :: "user option"
  db :: database
  db_available :: bool
  utcnow :: int
  next_request_id :: string

definition py_lower_char :: "char \<Rightarrow> char" where
  \<comment> \<open>\<open>str.lower\<close> on one character of ASCII text\<close>
  "py_lower_char c =
     (case map_of (zip ''ABCDEFGHIJKLMNOPQRSTUVWXYZ'' ''abcdefghijklmnopqrstuvwxyz'') c of
        None \<Rightarrow> c
      | Some l \<Rightarrow> l)"

definition py_lower :: "string \<Rightarrow> string" where
  "py_lower s = map py_lower_char s"

definition flag_is_true :: "string \<Rightarrow> bool" where
  \<comment> \<open>\<open>value.lower() == 'true'\<close>\<close>
  "flag_is_true v = (py_lower v = ''true'')"

definition py_round2 :: "rat \<Rightarrow> rat" where
  \<comment> \<open>\<open>round(x, 2)\<close> on a float: the value of \<open>x\<close> rounded to two decimal places, ties
      to even, and from there to the nearest float\<close>
  "py_round2 q = round_to_double (of_int (round_half_even (q * 100)) / 100)"

definition parse_threshold_multiplier :: "request_args \<Rightarrow> rat" where
  \<comment> \<open>\<open>request.args.get('threshold_multiplier', default=1.0, type=float)\<close>\<close>
  "parse_threshold_multiplier args =
     (case arg_threshold_multiplier args of None \<Rightarrow> 1 | Some t \<Rightarrow> t)"

definition parse_include_no_sales :: "request_args \<Rightarrow> bool" where
  "parse_include_no_sales args =
     flag_is_true (case arg_include_no_sales args of None \<Rightarrow> ''false'' | Some v \<Rightarrow> v)"

definition parse_limit :: "request_args \<Rightarrow> int" where
  "parse_limit args = (case arg_limit args of None \<Rightarrow> 100 | Some l \<Rightarrow> l)"

definition build_alert :: "database \<Rightarrow> stock_item \<Rightarrow> rat \<Rightarrow> alert" where
  "build_alert d item avg_daily_sales =
     (let days_until_stockout =
            calculate_days_until_stockout (item_current_stock item) (Some avg_daily_sales);
          supplier_info = get_preferred_supplier d (item_product_id item)
      in \<lparr> alert_product_id = item_product_id item,
           alert_product_name = item_product_name item,
           alert_sku = item_sku item,
           alert_category = item_category item,
           alert_warehouse_id = item_warehouse_id item,
           alert_warehouse_name = item_warehouse_name item,
           alert_current_stock = item_current_stock item,
           alert_threshold = item_low_stock_threshold item,
           alert_days_until_stockout = days_until_stockout,
           alert_avg_daily_sales =
             (if 0 < avg_daily_sales then Some (py_round2 avg_daily_sales) else None),
           alert_last_counted_at = item_last_counted_at item,
           alert_supplier = supplier_info,
           alert_urgency = calculate_urgency days_until_stockout (item_current_stock item),
           alert_recommended_reorder_quantity =
             calculate_reorder_quantity (item_low_stock_threshold item)
               (item_current_stock item) supplier_info \<rparr>)"

fun collect_alerts :: "database \<Rightarrow> ((int \<times> int) \<rightharpoonup> rat) \<Rightarrow> bool \<Rightarrow> stock_item list \<Rightarrow> alert list" where
  "collect_alerts d sales_data include_no_sales [] = []"
| "collect_alerts d sales_data include_no_sales (item # items) =
     (let avg_daily_sales =
            (case sales_data (item_product_id item, item_warehouse_id item) of
               None \<Rightarrow> 0
             | Some a \<Rightarrow> a)
      in if \<not> include_no_sales \<and> avg_daily_sales = 0
         then collect_alerts d sales_data include_no_sales items
         else build_alert d item avg_daily_sales
                # collect_alerts d sales_data include_no_sales items)"

definition loop_warehouse_id :: "int option \<Rightarrow> stock_item list \<Rightarrow> int option" where
  \<comment> \<open>the loop assigns \<open>warehouse_id = item.warehouse_id\<close>: after it the variable holds
      the warehouse of the last row, when there was one\<close>
  "loop_warehouse_id warehouse_id items =
     (case items of [] \<Rightarrow> warehouse_id | _ # _ \<Rightarrow> Some (item_warehouse_id (last items)))"

definition sort_key_of :: "alert \<Rightarrow> int \<times> int" where
  "sort_key_of x =
     (case alert_days_until_stockout x of Some d \<Rightarrow> d | None \<Rightarrow> 999, alert_current_stock x)"

definition py_slice_to :: "int \<Rightarrow> 'a list \<Rightarrow> 'a list" where
  \<comment> \<open>\<open>xs[:limit]\<close>: a negative limit counts from the end\<close>
  "py_slice_to limit xs =
     (if 0 \<le> limit then take (nat limit) xs
      else take (nat (int (length xs) + limit)) xs)"

definition compute_response :: "environment \<Rightarrow> int \<Rightarrow> int option \<Rightarrow> rat \<Rightarrow> bool \<Rightarrow> int \<Rightarrow> envelope" where
  \<comment> \<open>steps 4 to 11\<close>
  "compute_response env company_id warehouse_id threshold_multiplier include_no_sales limit =
     (let sales_data = get_recent_sales_data (db env) (utcnow env) company_id 30;
          low_stock_items =
            filter_by_warehouse warehouse_id
              (low_stock_query (db env) company_id threshold_multiplier);
          alerts = collect_alerts (db env) sales_data include_no_sales low_stock_items;
          alerts = sort_key sort_key_of alerts;
          alerts = py_slice_to limit alerts
      in \<lparr> resp_alerts = alerts,
           resp_total_alerts = length alerts,
           resp_generated_at = utcnow env,
           resp_parameters =
             \<lparr> param_organization_id = company_id,
               param_warehouse_id = loop_warehouse_id warehouse_id low_stock_items,
               param_threshold_multiplier = threshold_multiplier,
               param_include_no_sales = include_no_sales,
               param_sales_period_days = 30 \<rparr> \<rparr>)"

definition find_organization :: "database \<Rightarrow> int \<Rightarrow> organization option" where
  "find_organization d company_id = find (\<lambda>g. org_id g = company_id) (organizations d)"

definition try_low_stock_alerts ::
  "environment \<Rightarrow> redis \<Rightarrow> int \<Rightarrow> request_args \<Rightarrow> exn + (response \<times> redis)" where
  \<comment> \<open>the body of the \<open>try\<close> block; \<open>Inl\<close> is a raised exception\<close>
  "try_low_stock_alerts env cache company_id args =
     (case current_user env of
        None \<Rightarrow> Inr ((ErrorBody ''Unauthorized'', 401), cache)
      | Some u \<Rightarrow>
          if \<not> has_access_to_organization u company_id
          then Inr ((ErrorBody ''Access denied'', 403), cache)
          else
            let warehouse_id = arg_warehouse_id args;
                threshold_multiplier = parse_threshold_multiplier args;
                include_no_sales = parse_include_no_sales args;
                limit = parse_limit args
            in if threshold_multiplier \<le> 0
               then Inr ((ErrorBody ''threshold_multiplier must be positive'', 400), cache)
               else if 1000 < limit
               then Inr ((ErrorBody ''limit cannot exceed 1000'', 400), cache)
               else if \<not> db_available env then Inl DataSourceError
               else if (case find_organization (db env) company_id of
                          None \<Rightarrow> True
                        | Some g \<Rightarrow> \<not> org_is_active g)
               then Inr ((ErrorBody ''Organization not found'', 404), cache)
               else
                 let cache_key =
                       LowStockAlertsKey company_id warehouse_id threshold_multiplier
                         include_no_sales
                 in case redis_get cache (utcnow env) cache_key of
                      Inl e \<Rightarrow> Inl e
                    | Inr (Some cached_result) \<Rightarrow> Inr ((AlertsBody cached_result, 200), cache)
                    | Inr None \<Rightarrow>
                        let response =
                              compute_response env company_id warehouse_id
                                threshold_multiplier include_no_sales limit
                        in case redis_setex cache (utcnow env) cache_key 300 response of
                             Inl e \<Rightarrow> Inl e
                           | Inr cache' \<Rightarrow> Inr ((AlertsBody response, 200), cache'))"

definition get_low_stock_alerts ::
  "environment \<Rightarrow> redis \<Rightarrow> int \<Rightarrow> request_args \<Rightarrow> response \<times> redis" where
  \<comment> \<open>\<open>except Exception\<close>: every raised exception becomes the generic 500 response\<close>
  "get_low_stock_alerts env cache company_id args =
     (case try_low_stock_alerts env cache company_id args of
        Inr result \<Rightarrow> result
      | Inl e \<Rightarrow>
          ((InternalErrorBody ''An error occurred while generating alerts''
              ''Please try again or contact support'' (next_request_id env), 500), cache))"

subsection \<open>The order the specification asks for\<close>

definition spec_key_le :: "alert \<Rightarrow> alert \<Rightarrow> bool" where
  \<comment> \<open>lexicographic order on (days, stock), absent days counting as plus infinity\<close>
  "spec_key_le a b =
     (case (alert_days_until_stockout a, alert_days_until_stockout b) of
        (Some x, Some y) \<Rightarrow> x < y \<or> (x = y \<and> alert_current_stock a \<le> alert_current_stock b)
      | (Some x, None) \<Rightarrow> True
      | (None, Some y) \<Rightarrow> False
      | (None, None) \<Rightarrow> alert_current_stock a \<le> alert_current_stock b)"

subsection \<open>Concrete requests\<close>

text \<open>
  Organization 42 with one product (SKU WID-1, threshold 20) in warehouse 7, stock 5, and
  90 units sold in the last 30 days; a second database with a slow seller and a product
  without sales.
\<close>

definition scenario_db :: database where
  "scenario_db =
     \<lparr> organizations = [\<lparr>org_id = 42, org_is_active = True\<rparr>],
       products = [\<lparr>prod_id = 1, prod_organization_id = 42, prod_name = ''Widget'',
                    prod_sku = ''WID-1'', prod_category = ''parts'',
                    prod_low_stock_threshold = 20, prod_is_deleted = False\<rparr>],
       warehouses = [\<lparr>wh_id = 7, wh_name = ''Main'', wh_is_active = True\<rparr>],
       inventories = [\<lparr>inv_product_id = 1, inv_warehouse_id = 7,
                       inv_quantity_available = 5, inv_last_counted_at = None\<rparr>],
       suppliers = [],
       product_suppliers = [],
       sales_orders = [\<lparr>so_id = 1, so_organization_id = 42, so_order_date = 1000000,
                        so_status = ''completed''\<rparr>],
       sales_order_items = [\<lparr>soi_order_id = 1, soi_product_id = 1, soi_warehouse_id = 7,
                             soi_quantity = 90\<rparr>] \<rparr>"

definition slow_seller_db :: database where
  "slow_seller_db =
     \<lparr> organizations = [\<lparr>org_id = 42, org_is_active = True\<rparr>],
       products = [\<lparr>prod_id = 1, prod_organization_id = 42, prod_name = ''Anvil'',
                    prod_sku = ''ANV-1'', prod_category = ''tools'',
                    prod_low_stock_threshold = 50, prod_is_deleted = False\<rparr>,
                   \<lparr>prod_id = 2, prod_organization_id = 42, prod_name = ''Bellows'',
                    prod_sku = ''BEL-2'', prod_category = ''tools'',
                    prod_low_stock_threshold = 50, prod_is_deleted = False\<rparr>],
       warehouses = [\<lparr>wh_id = 7, wh_name = ''Main'', wh_is_active = True\<rparr>],
       inventories = [\<lparr>inv_product_id = 1, inv_warehouse_id = 7,
                       inv_quantity_available = 40, inv_last_counted_at = None\<rparr>,
                      \<lparr>inv_product_id = 2, inv_warehouse_id = 7,
                       inv_quantity_available = 45, inv_last_counted_at = None\<rparr>],
       suppliers = [],
       product_suppliers = [],
       sales_orders = [\<lparr>so_id = 1, so_organization_id = 42, so_order_date = 1000000,
                        so_status = ''completed''\<rparr>],
       sales_order_items = [\<lparr>soi_order_id = 1, soi_product_id = 1, soi_warehouse_id = 7,
                             soi_quantity = 1\<rparr>] \<rparr>"

definition closed_org_db :: database where
  \<comment> \<open>the scenario with the organization switched off\<close>
  "closed_org_db = scenario_db\<lparr>organizations := [\<lparr>org_id = 42, org_is_active = False\<rparr>]\<rparr>"

definition scenario_env :: "database \<Rightarrow> environment" where
  "scenario_env d =
     \<lparr> current_user = Some \<lparr>user_id = 1, accessible_organizations = [42]\<rparr>,
       db = d, db_available = True, utcnow = 1086400,
       next_request_id = ''req-1'' \<rparr>"

definition empty_cache :: redis where
  "empty_cache = \<lparr> entries = [], get_raises = False, setex_raises = False \<rparr>"

definition default_args :: request_args where
  "default_args = \<lparr> arg_warehouse_id = None, arg_threshold_multiplier = None,
                     arg_include_no_sales = None, arg_limit = None \<rparr>"

subsection \<open>The reorder rule in the words of the specification\<close>

definition spec_round_up_10 :: "int \<Rightarrow> int" where
  \<comment> \<open>the next multiple of 10 at or above \<open>n\<close>\<close>
  "spec_round_up_10 n = (if n mod 10 = 0 then n else n + (10 - n mod 10))"

definition spec_reorder_quantity :: "int \<Rightarrow> int \<Rightarrow> supplier_info option \<Rightarrow> int" where
  "spec_reorder_quantity threshold current_stock supplier =
     (let needed = max 0 (2 * threshold - current_stock);
          needed = (case supplier of
                      None \<Rightarrow> needed
                    | Some s \<Rightarrow>
                        (case minimum_order_quantity s of
                           None \<Rightarrow> needed
                         | Some moq \<Rightarrow> if moq > needed then moq else needed))
      in max 10 (spec_round_up_10 needed))"

section \<open>The endpoint \<open>create_product\<close>\<close>

text \<open>
  The tables of \<^verbatim>\<open>productapi.py\<close>. Whether the column \<open>sku\<close> carries a UNIQUE
  constraint is decided by the schema, which is not part of the sources: it is the
  parameter \<open>cat_sku_is_unique\<close>. The query \<open>filter_by(sku=...)\<close> compares the column with
  the given string exactly.
\<close>

record catalog_product =
  cp_id :: int
  cp_name :: string
  cp_sku :: string
  cp_price :: rat
  cp_created_by :: int
  cp_created_at :: int

record catalog_inventory =
  ci_product_id :: int
  ci_warehouse_id :: int
  ci_quantity :: int
  ci_updated_by :: "int option"

record catalog =
  cat_products :: "catalog_product list"
  cat_warehouses :: "int list"
  cat_inventory :: "catalog_inventory list"
  cat_sku_is_unique :: bool

record api_user =
  api_user_id :: int
  accessible_warehouses :: "int list"

definition has_access_to_warehouse :: "api_user \<Rightarrow> int \<Rightarrow> bool" where
  "has_access_to_warehouse u warehouse_id = (warehouse_id \<in> set (accessible_warehouses u))"

text \<open>
  The JSON body. A field that is absent is \<open>None\<close>; the price and the quantity are given
  by what \<open>Decimal(str(v))\<close> and \<open>int(v)\<close> make of them: a number, a
  \<open>ValueError\<close> or \<open>TypeError\<close> (the invalid cases), or for \<open>int\<close> of an infinite float
  an \<open>OverflowError\<close>, which only the outer handler catches. Strings are ASCII text.
\<close>

datatype decimal_text = Number rat | InvalidNumber

datatype int_text = Integer int | InvalidInteger | UnboundedInteger

record product_data =
  data_name :: "string option"
  data_sku :: "string option"
  data_price :: "decimal_text option"
  data_warehouse_id :: "int option"
  data_initial_quantity :: "int_text option"

datatype product_body =
    Message string
  | MissingFields "string list"
  | SkuExists int
  | Created catalog_product int int
  | ConstraintViolation

definition missing_fields :: "product_data \<Rightarrow> string list" where
  "missing_fields data =
     (if data_name data = None then [''name''] else [])
     @ (if data_sku data = None then [''sku''] else [])
     @ (if data_price data = None then [''price''] else [])
     @ (if data_warehouse_id data = None then [''warehouse_id''] else [])
     @ (if data_initial_quantity data = None then [''initial_quantity''] else [])"

definition is_space :: "char \<Rightarrow> bool" where
  \<comment> \<open>the ASCII characters that \<open>str.strip\<close> removes\<close>
  "is_space c = ((of_char c :: nat) \<in> set [9, 10, 11, 12, 13, 28, 29, 30, 31, 32])"

definition py_strip :: "string \<Rightarrow> string" where
  "py_strip s = rev (dropWhile is_space (rev (dropWhile is_space s)))"

definition py_upper_char :: "char \<Rightarrow> char" where
  \<comment> \<open>\<open>str.upper\<close> on one character of ASCII text\<close>
  "py_upper_char c =
     (case map_of (zip ''abcdefghijklmnopqrstuvwxyz'' ''ABCDEFGHIJKLMNOPQRSTUVWXYZ'') c of
        None \<Rightarrow> c
      | Some u \<Rightarrow> u)"

definition py_upper :: "string \<Rightarrow> string" where
  "py_upper s = map py_upper_char s"

definition next_product_id :: "catalog \<Rightarrow> int" where
  \<comment> \<open>the identifier that \<open>flush\<close> assigns: above every identifier in use\<close>
  "next_product_id c = fold max (map cp_id (cat_products c)) 0 + 1"

definition add_inventory :: "catalog_inventory list \<Rightarrow> int \<Rightarrow> int \<Rightarrow> int \<Rightarrow> int \<Rightarrow> catalog_inventory list" where
  \<comment> \<open>the first row of the product and warehouse is increased; without one a row is added\<close>
  "add_inventory rows product_id warehouse_id quantity uid =
     (case find (\<lambda>r. ci_product_id r = product_id \<and> ci_warehouse_id r = warehouse_id) rows of
        Some existing \<Rightarrow>
          map (\<lambda>r. if r = existing
                    then r\<lparr>ci_quantity := ci_quantity r + quantity, ci_updated_by := Some uid\<rparr>
                    else r) rows
      | None \<Rightarrow>
          rows @ [\<lparr>ci_product_id = product_id, ci_warehouse_id = warehouse_id,
                   ci_quantity = quantity, ci_updated_by = None\<rparr>])"

definition store_product ::
  "catalog \<Rightarrow> api_user \<Rightarrow> int \<Rightarrow> string \<Rightarrow> string \<Rightarrow> rat \<Rightarrow> int \<Rightarrow> int
     \<Rightarrow> (product_body \<times> int) \<times> catalog" where
  \<comment> \<open>the transaction: the row is built with the normalized SKU; \<open>flush\<close> raises
      \<open>IntegrityError\<close> when the column is unique and the SKU is stored already\<close>
  "store_product c u now name sku price warehouse_id initial_quantity =
     (let product =
            \<lparr> cp_id = next_product_id c,
              cp_name = py_strip name,
              cp_sku = py_upper (py_strip sku),
              cp_price = price,
              cp_created_by = api_user_id u,
              cp_created_at = now \<rparr>
      in if cat_sku_is_unique c \<and> cp_sku product \<in> set (map cp_sku (cat_products c))
         then ((ConstraintViolation, 409), c)
         else ((Created product warehouse_id initial_quantity, 201),
               c\<lparr>cat_products := cat_products c @ [product],
                 cat_inventory :=
                   add_inventory (cat_inventory c) (cp_id product) warehouse_id
                     initial_quantity (api_user_id u)\<rparr>))"

definition create_checked ::
  "catalog \<Rightarrow> api_user \<Rightarrow> int \<Rightarrow> string \<Rightarrow> string \<Rightarrow> decimal_text \<Rightarrow> int \<Rightarrow> int_text
     \<Rightarrow> (product_body \<times> int) \<times> catalog" where
  \<comment> \<open>the body of \<open>create_product\<close> once all five fields are present\<close>
  "create_checked c u now name sku price_value warehouse_id quantity_value =
     (case price_value of
        InvalidNumber \<Rightarrow> ((Message ''Invalid price format'', 400), c)
      | Number price \<Rightarrow>
          if price < 0 then ((Message ''Price cannot be negative'', 400), c)
          else
            (case quantity_value of
               InvalidInteger \<Rightarrow> ((Message ''Invalid quantity format'', 400), c)
             | UnboundedInteger \<Rightarrow> ((Message ''An unexpected error occurred'', 500), c)
             | Integer initial_quantity \<Rightarrow>
                 if initial_quantity < 0
                 then ((Message ''Initial quantity cannot be negative'', 400), c)
                 else if warehouse_id \<notin> set (cat_warehouses c)
                 then ((Message ''Warehouse not found'', 404), c)
                 else if \<not> has_access_to_warehouse u warehouse_id
                 then ((Message ''Access denied to this warehouse'', 403), c)
                 else
                   (case find (\<lambda>p. cp_sku p = sku) (cat_products c) of
                      Some existing_product \<Rightarrow> ((SkuExists (cp_id existing_product), 409), c)
                    | None \<Rightarrow>
                        store_product c u now name sku price warehouse_id initial_quantity)))"

definition create_product ::
  "catalog \<Rightarrow> api_user option \<Rightarrow> int \<Rightarrow> product_data \<Rightarrow> (product_body \<times> int) \<times> catalog" where
  "create_product c caller now data =
     (case caller of
        None \<Rightarrow> ((Message ''Unauthorized'', 401), c)
      | Some u \<Rightarrow>
          if missing_fields data \<noteq> []
          then ((MissingFields (missing_fields data), 400), c)
          else
            (case (data_name data, data_sku data, data_price data, data_warehouse_id data,
                   data_initial_quantity data) of
               (Some name, Some sku, Some price_value, Some warehouse_id, Some quantity_value) \<Rightarrow>
                 create_checked c u now name sku price_value warehouse_id quantity_value
             | _ \<Rightarrow> ((Message ''An unexpected error occurred'', 500), c)))"

definition abc_catalog :: catalog where
  "abc_catalog =
     \<lparr> cat_products = [\<lparr>cp_id = 1, cp_name = ''Anvil'', cp_sku = ''ABC'', cp_price = 10,
                        cp_created_by = 1, cp_created_at = 0\<rparr>],
       cat_warehouses = [7],
       cat_inventory = [\<lparr>ci_product_id = 1, ci_warehouse_id = 7, ci_quantity = 3,
                         ci_updated_by = None\<rparr>],
       cat_sku_is_unique = False \<rparr>"

definition abc_user :: api_user where
  "abc_user = \<lparr> api_user_id = 5, accessible_warehouses = [7] \<rparr>"

definition abc_data :: "string \<Rightarrow> product_data" where
  "abc_data sku =
     \<lparr> data_name = Some ''Anvil two'', data_sku = Some sku, data_price = Some (Number 12),
       data_warehouse_id = Some 7, data_initial_quantity = Some (Integer 4) \<rparr>"

section \<open>Properties of the helpers\<close>

lemma py_int_pos: "0 \<le> q \<Longrightarrow> py_int q = \<lfloor>q\<rfloor>"
  by (simp add: py_int_def)

lemma round_up_10_agree: "((n + 9) div 10) * 10 = spec_round_up_10 (n::int)"
proof -
  define q r where "q = n div 10" and "r = n mod 10"
  have n: "n = 10 * q + r" and r0: "0 \<le> r" and r10: "r < 10"
    by (simp_all add: q_def r_def)
  show ?thesis
  proof (cases "r = 0")
    case True
    with n have "n + 9 = 10 * q + 9" by simp
    then have "(n + 9) div 10 = q" by (rule int_div_pos_eq) simp_all
    with True n show ?thesis by (simp add: spec_round_up_10_def r_def [symmetric])
  next
    case False
    with r0 have r1: "0 \<le> r - 1" by simp
    from r10 have r2: "r - 1 < 10" by simp
    from n have "n + 9 = 10 * (q + 1) + (r - 1)" by simp
    then have "(n + 9) div 10 = q + 1" using r1 r2 by (rule int_div_pos_eq)
    then have "((n + 9) div 10) * 10 = 10 * q + 10" by simp
    also from n have "\<dots> = n + (10 - r)" by simp
    finally show ?thesis using False by (simp add: spec_round_up_10_def r_def [symmetric])
  qed
qed

lemma round_up_nonpos: "m \<le> 0 \<Longrightarrow> max 10 (((m + 9) div 10) * 10) = (10::int)"
  by (simp add: max_def)

lemma round_up_max0:
  "max 10 (((max 0 n + 9) div 10) * 10) = max (10::int) (((n + 9) div 10) * 10)"
proof (cases "n \<le> 0")
  case True
  then have "max 0 n = 0" by simp
  with True show ?thesis by (simp add: round_up_nonpos)
next
  case False
  then have "max 0 n = n" by simp
  then show ?thesis by simp
qed

lemma round_up_moq:
  "max 10 ((((if m \<noteq> 0 \<and> n < m then m else n) + 9) div 10) * 10)
     = max (10::int) ((((if m > max 0 n then m else max 0 n) + 9) div 10) * 10)"
proof (cases "m > max 0 n")
  case True
  then show ?thesis by simp
next
  case False
  show ?thesis
  proof (cases "m \<noteq> 0 \<and> n < m")
    case True
    with False have "m \<le> 0" "max 0 n = 0" by simp_all
    with True False show ?thesis by (simp add: round_up_nonpos)
  next
    case F2: False
    have "max 10 (((n + 9) div 10) * 10) = max (10::int) (((max 0 n + 9) div 10) * 10)"
      by (simp add: round_up_max0)
    moreover from False F2 have "(if m \<noteq> 0 \<and> n < m then m else n) = n"
      and "(if m > max 0 n then m else max 0 n) = max 0 n" by auto
    ultimately show ?thesis by simp
  qed
qed

lemma reorder_code_moq:
  "minimum_order_quantity s = Some m \<Longrightarrow>
   calculate_reorder_quantity threshold current_stock (Some s)
     = max 10 ((((if m \<noteq> 0 \<and> threshold * 2 - current_stock < m then m
                   else threshold * 2 - current_stock) + 9) div 10) * 10)"
  by (simp add: calculate_reorder_quantity_def truthy_int_def Let_def)

lemma reorder_spec_moq:
  "minimum_order_quantity s = Some m \<Longrightarrow>
   spec_reorder_quantity threshold current_stock (Some s)
     = max 10 ((((if m > max 0 (threshold * 2 - current_stock) then m
                   else max 0 (threshold * 2 - current_stock)) + 9) div 10) * 10)"
  unfolding spec_reorder_quantity_def round_up_10_agree [symmetric] Let_def
  by (simp add: mult.commute [of 2 threshold])

lemma reorder_code_no_moq:
  "supplier = None \<or> (\<exists>s. supplier = Some s \<and> minimum_order_quantity s = None) \<Longrightarrow>
   calculate_reorder_quantity threshold current_stock supplier
     = max 10 (((threshold * 2 - current_stock + 9) div 10) * 10)"
  by (auto simp add: calculate_reorder_quantity_def truthy_int_def Let_def)

lemma reorder_spec_no_moq:
  "supplier = None \<or> (\<exists>s. supplier = Some s \<and> minimum_order_quantity s = None) \<Longrightarrow>
   spec_reorder_quantity threshold current_stock supplier
     = max 10 (((max 0 (threshold * 2 - current_stock) + 9) div 10) * 10)"
  unfolding spec_reorder_quantity_def round_up_10_agree [symmetric] Let_def
  by (auto simp add: mult.commute [of 2 threshold])

text \<open>
  C1 (as the code has it). The test for missing or non-positive sales comes first:
  the function returns \<open>0\<close> for a stock at or below zero only when the average is
  positive; for an absent, zero or negative average it returns \<open>None\<close> whatever the stock.
\<close>

theorem C1_stockout_zero_needs_positive_sales:
  "(current_stock \<le> 0 \<and> 0 < a \<longrightarrow>
      calculate_days_until_stockout current_stock (Some a) = Some 0)
   \<and> calculate_days_until_stockout current_stock None = None
   \<and> (a \<le> 0 \<longrightarrow> calculate_days_until_stockout current_stock (Some a) = None)"
  by (simp add: calculate_days_until_stockout_def)

theorem C1_stockout_zero_needs_positive_sales_witness:
  "(0::int) \<le> 0 \<and> (0::rat) < 3
   \<and> calculate_days_until_stockout 0 (Some 3) = Some 0
   \<and> calculate_days_until_stockout 0 None = None
   \<and> calculate_days_until_stockout 0 (Some 0) = None"
proof -
  from C1_stockout_zero_needs_positive_sales [of 0 3]
  have "calculate_days_until_stockout 0 (Some 3) = Some 0"
    and "calculate_days_until_stockout 0 None = None"
    by simp_all
  moreover from C1_stockout_zero_needs_positive_sales [of 0 0]
  have "calculate_days_until_stockout 0 (Some 0) = None"
    by simp
  ultimately show ?thesis by simp
qed

text \<open>
  C1, counterexample to the claim as stated: a stock of \<open>0\<close> with no sales data
  (average absent, or zero as the pipeline passes it) does not give \<open>0\<close> days.
\<close>

theorem C1_counterexample:
  "calculate_days_until_stockout 0 None \<noteq> Some 0
   \<and> calculate_days_until_stockout 0 (Some 0) \<noteq> Some 0"
  by (simp add: calculate_days_until_stockout_def)

text \<open>
  C4. \<open>calculate_reorder_quantity\<close> computes the rule of the specification (need
  floored at zero, raised to a larger supplier minimum, rounded up to a multiple of 10,
  never below 10), and its result is a positive multiple of 10 and at least 10.
\<close>

theorem C4_reorder_quantity:
  "calculate_reorder_quantity threshold current_stock supplier
     = spec_reorder_quantity threshold current_stock supplier
   \<and> 10 dvd calculate_reorder_quantity threshold current_stock supplier
   \<and> 10 \<le> calculate_reorder_quantity threshold current_stock supplier
   \<and> 0 < calculate_reorder_quantity threshold current_stock supplier"
proof -
  let ?r = "calculate_reorder_quantity threshold current_stock supplier"
  have eq: "?r = spec_reorder_quantity threshold current_stock supplier"
  proof (cases "supplier = None
      \<or> (\<exists>s. supplier = Some s \<and> minimum_order_quantity s = None)")
    case True
    then show ?thesis
      by (simp only: reorder_code_no_moq reorder_spec_no_moq round_up_max0)
  next
    case False
    then obtain s m where "supplier = Some s" "minimum_order_quantity s = Some m"
      by (cases supplier) auto
    then show ?thesis
      by (simp only: reorder_code_moq reorder_spec_moq round_up_moq)
  qed
  have "\<exists>n. ?r = max 10 (((n + 9) div 10) * 10)"
    unfolding calculate_reorder_quantity_def Let_def by blast
  then obtain n where r: "?r = max 10 (((n + 9) div 10) * 10)" ..
  have dvd: "10 dvd ?r"
    unfolding r max_def by simp
  have ge: "10 \<le> ?r"
    unfolding r by simp
  from eq dvd ge show ?thesis by simp
qed

text \<open>
  C5. \<open>calculate_urgency\<close> always returns one of the four tiers; a stock at or below
  zero is critical whatever the days; otherwise absent days are low, and the bounds
  3, 7 and 14 are inclusive upper bounds of critical, high and medium.
\<close>

theorem C5_urgency_tiers:
  "calculate_urgency days current_stock \<in> {''critical'', ''high'', ''medium'', ''low''}
   \<and> (current_stock \<le> 0 \<longrightarrow> calculate_urgency days current_stock = ''critical'')
   \<and> (0 < current_stock \<longrightarrow> calculate_urgency None current_stock = ''low'')
   \<and> (0 < current_stock \<and> d \<le> 3 \<longrightarrow> calculate_urgency (Some d) current_stock = ''critical'')
   \<and> (0 < current_stock \<and> 4 \<le> d \<and> d \<le> 7 \<longrightarrow>
        calculate_urgency (Some d) current_stock = ''high'')
   \<and> (0 < current_stock \<and> 8 \<le> d \<and> d \<le> 14 \<longrightarrow>
        calculate_urgency (Some d) current_stock = ''medium'')
   \<and> (0 < current_stock \<and> 14 < d \<longrightarrow> calculate_urgency (Some d) current_stock = ''low'')"
  by (simp add: calculate_urgency_def split: option.split)

theorem C5_urgency_tiers_witness:
  "calculate_urgency (Some 100) 0 = ''critical''
   \<and> calculate_urgency None 5 = ''low''
   \<and> calculate_urgency (Some 3) 5 = ''critical''
   \<and> calculate_urgency (Some 4) 5 = ''high''
   \<and> calculate_urgency (Some 7) 5 = ''high''
   \<and> calculate_urgency (Some 8) 5 = ''medium''
   \<and> calculate_urgency (Some 14) 5 = ''medium''
   \<and> calculate_urgency (Some 15) 5 = ''low''"
proof -
  from C5_urgency_tiers [of "Some 100" 0 0]
  have a: "calculate_urgency (Some 100) 0 = ''critical''" by simp
  from C5_urgency_tiers [of None 5 3]
  have b: "calculate_urgency None 5 = ''low''"
    and c: "calculate_urgency (Some 3) 5 = ''critical''" by simp_all
  from C5_urgency_tiers [of None 5 4]
  have d: "calculate_urgency (Some 4) 5 = ''high''" by simp
  from C5_urgency_tiers [of None 5 7]
  have e: "calculate_urgency (Some 7) 5 = ''high''" by simp
  from C5_urgency_tiers [of None 5 8]
  have f: "calculate_urgency (Some 8) 5 = ''medium''" by simp
  from C5_urgency_tiers [of None 5 14]
  have g: "calculate_urgency (Some 14) 5 = ''medium''" by simp
  from C5_urgency_tiers [of None 5 15]
  have h: "calculate_urgency (Some 15) 5 = ''low''" by simp
  from a b c d e f g h show ?thesis by simp
qed







section \<open>The stages of the endpoint\<close>

lemma try_after_auth:
  assumes "current_user env = Some u" "has_access_to_organization u company_id"
  shows "try_low_stock_alerts env cache company_id args =
     (if parse_threshold_multiplier args \<le> 0
      then Inr ((ErrorBody ''threshold_multiplier must be positive'', 400), cache)
      else if 1000 < parse_limit args
      then Inr ((ErrorBody ''limit cannot exceed 1000'', 400), cache)
      else if \<not> db_available env then Inl DataSourceError
      else if (case find_organization (db env) company_id of
                 None \<Rightarrow> True
               | Some g \<Rightarrow> \<not> org_is_active g)
      then Inr ((ErrorBody ''Organization not found'', 404), cache)
      else
        case redis_get cache (utcnow env)
               (LowStockAlertsKey company_id (arg_warehouse_id args)
                  (parse_threshold_multiplier args) (parse_include_no_sales args)) of
          Inl e \<Rightarrow> Inl e
        | Inr (Some cached_result) \<Rightarrow> Inr ((AlertsBody cached_result, 200), cache)
        | Inr None \<Rightarrow>
            (case redis_setex cache (utcnow env)
                    (LowStockAlertsKey company_id (arg_warehouse_id args)
                       (parse_threshold_multiplier args) (parse_include_no_sales args))
                    300
                    (compute_response env company_id (arg_warehouse_id args)
                       (parse_threshold_multiplier args) (parse_include_no_sales args)
                       (parse_limit args)) of
               Inl e \<Rightarrow> Inl e
             | Inr cache' \<Rightarrow>
                 Inr ((AlertsBody
                         (compute_response env company_id (arg_warehouse_id args)
                            (parse_threshold_multiplier args) (parse_include_no_sales args)
                            (parse_limit args)), 200), cache')))"
  using assms
  by (simp add: try_low_stock_alerts_def Let_def split: sum.split option.split)

lemma try_valid:
  assumes "current_user env = Some u" "has_access_to_organization u company_id"
    and "0 < parse_threshold_multiplier args" "parse_limit args \<le> 1000"
    and "db_available env"
    and "find_organization (db env) company_id = Some g" "org_is_active g"
  shows "try_low_stock_alerts env cache company_id args =
     (case redis_get cache (utcnow env)
               (LowStockAlertsKey company_id (arg_warehouse_id args)
                  (parse_threshold_multiplier args) (parse_include_no_sales args)) of
          Inl e \<Rightarrow> Inl e
        | Inr (Some cached_result) \<Rightarrow> Inr ((AlertsBody cached_result, 200), cache)
        | Inr None \<Rightarrow>
            (case redis_setex cache (utcnow env)
                    (LowStockAlertsKey company_id (arg_warehouse_id args)
                       (parse_threshold_multiplier args) (parse_include_no_sales args))
                    300
                    (compute_response env company_id (arg_warehouse_id args)
                       (parse_threshold_multiplier args) (parse_include_no_sales args)
                       (parse_limit args)) of
               Inl e \<Rightarrow> Inl e
             | Inr cache' \<Rightarrow>
                 Inr ((AlertsBody
                         (compute_response env company_id (arg_warehouse_id args)
                            (parse_threshold_multiplier args) (parse_include_no_sales args)
                            (parse_limit args)), 200), cache')))"
  using assms by (simp add: try_after_auth [OF assms(1,2)])

lemma redis_get_cases:
  "redis_get r t k = Inl CacheError \<and> get_raises r
   \<or> (\<exists>v. redis_get r t k = Inr v) \<and> \<not> get_raises r"
  by (simp add: redis_get_def)

lemma redis_setex_cases:
  "redis_setex r t k ttl v = Inl CacheError \<and> setex_raises r
   \<or> (\<exists>r'. redis_setex r t k ttl v = Inr r') \<and> \<not> setex_raises r"
  by (simp add: redis_setex_def)

section \<open>Properties of the endpoint\<close>

text \<open>
  C7. For an authenticated caller with access to the organization, a multiplier at or
  below zero (so also \<open>0\<close> and \<open>-1\<close>) is answered with the 400 response
  \<open>threshold_multiplier must be positive\<close>; a limit above 1000 is answered with a 400
  response (\<open>limit cannot exceed 1000\<close> when the multiplier is valid) and is not clamped;
  a limit of exactly 1000 with a valid multiplier is not answered with 400, and is answered
  with 200 when the data source, the organization and the cache are in order.
\<close>

theorem C7_parameter_validation:
  assumes "current_user env = Some u" "has_access_to_organization u company_id"
  shows "(parse_threshold_multiplier args \<le> 0 \<longrightarrow>
            fst (get_low_stock_alerts env cache company_id args)
              = (ErrorBody ''threshold_multiplier must be positive'', 400))
       \<and> (0 < parse_threshold_multiplier args \<and> 1000 < parse_limit args \<longrightarrow>
            fst (get_low_stock_alerts env cache company_id args)
              = (ErrorBody ''limit cannot exceed 1000'', 400))
       \<and> (1000 < parse_limit args \<longrightarrow>
            snd (fst (get_low_stock_alerts env cache company_id args)) = 400)
       \<and> (0 < parse_threshold_multiplier args \<and> parse_limit args = 1000 \<longrightarrow>
            snd (fst (get_low_stock_alerts env cache company_id args)) \<noteq> 400)
       \<and> (0 < parse_threshold_multiplier args \<and> parse_limit args = 1000
            \<and> db_available env \<and> find_organization (db env) company_id = Some g
            \<and> org_is_active g \<and> \<not> get_raises cache \<and> \<not> setex_raises cache \<longrightarrow>
            snd (fst (get_low_stock_alerts env cache company_id args)) = 200)"
proof -
  let ?r = "get_low_stock_alerts env cache company_id args"
  note t = try_after_auth [OF assms, of cache args]
  have a: "parse_threshold_multiplier args \<le> 0 \<Longrightarrow>
      fst ?r = (ErrorBody ''threshold_multiplier must be positive'', 400)"
    by (simp add: get_low_stock_alerts_def t)
  have b: "0 < parse_threshold_multiplier args \<Longrightarrow> 1000 < parse_limit args \<Longrightarrow>
      fst ?r = (ErrorBody ''limit cannot exceed 1000'', 400)"
    by (simp add: get_low_stock_alerts_def t)
  have c: "1000 < parse_limit args \<Longrightarrow> snd (fst ?r) = 400"
    using a b by (cases "parse_threshold_multiplier args \<le> 0") auto
  have d: "snd (fst ?r) \<noteq> 400"
    if "0 < parse_threshold_multiplier args" "parse_limit args = 1000"
    using that redis_get_cases [of cache "utcnow env"
        "LowStockAlertsKey company_id (arg_warehouse_id args)
           (parse_threshold_multiplier args) (parse_include_no_sales args)"]
      redis_setex_cases [of cache "utcnow env"
        "LowStockAlertsKey company_id (arg_warehouse_id args)
           (parse_threshold_multiplier args) (parse_include_no_sales args)" 300
        "compute_response env company_id (arg_warehouse_id args)
           (parse_threshold_multiplier args) (parse_include_no_sales args) (parse_limit args)"]
    by (auto simp add: get_low_stock_alerts_def t split: option.splits sum.splits)
  have e: "snd (fst ?r) = 200"
    if "0 < parse_threshold_multiplier args" "parse_limit args = 1000" "db_available env"
      "find_organization (db env) company_id = Some g" "org_is_active g"
      "\<not> get_raises cache" "\<not> setex_raises cache"
    using that
    by (simp add: get_low_stock_alerts_def t redis_get_def redis_setex_def
        split: option.split)
  from a b c d e show ?thesis by blast
qed

lemmas scenario_simps = scenario_env_def scenario_db_def slow_seller_db_def empty_cache_def
  default_args_def

lemmas parse_simps = parse_threshold_multiplier_def parse_include_no_sales_def parse_limit_def
  flag_is_true_def py_lower_def py_lower_char_def

lemma scenario_user:
  "current_user (scenario_env d) = Some \<lparr>user_id = 1, accessible_organizations = [42]\<rparr>"
  "has_access_to_organization \<lparr>user_id = 1, accessible_organizations = [42]\<rparr> 42"
  by (simp_all add: scenario_env_def has_access_to_organization_def)

lemma scenario_env_sel:
  "db (scenario_env d) = d"
  "utcnow (scenario_env d) = 1086400"
  "next_request_id (scenario_env d) = ''req-1''"
  by (simp_all add: scenario_env_def)

lemma scenario_org:
  "db_available (scenario_env d)"
  "find_organization (db (scenario_env scenario_db)) 42 = Some \<lparr>org_id = 42, org_is_active = True\<rparr>"
  "find_organization (db (scenario_env slow_seller_db)) 42 = Some \<lparr>org_id = 42, org_is_active = True\<rparr>"
  "org_is_active \<lparr>org_id = 42, org_is_active = True\<rparr>"
  by (simp_all add: scenario_simps find_organization_def)

text \<open>C7 at the concrete requests of the specification: 0, -1, 1001 and 1000.\<close>

theorem C7_parameter_validation_witness:
  "fst (get_low_stock_alerts (scenario_env scenario_db) empty_cache 42
          (default_args\<lparr>arg_threshold_multiplier := Some 0\<rparr>))
     = (ErrorBody ''threshold_multiplier must be positive'', 400)
   \<and> fst (get_low_stock_alerts (scenario_env scenario_db) empty_cache 42
          (default_args\<lparr>arg_threshold_multiplier := Some (- 1)\<rparr>))
     = (ErrorBody ''threshold_multiplier must be positive'', 400)
   \<and> fst (get_low_stock_alerts (scenario_env scenario_db) empty_cache 42
          (default_args\<lparr>arg_limit := Some 1001\<rparr>))
     = (ErrorBody ''limit cannot exceed 1000'', 400)
   \<and> snd (fst (get_low_stock_alerts (scenario_env scenario_db) empty_cache 42
          (default_args\<lparr>arg_limit := Some 1000\<rparr>))) = 200"
proof -
  note w = C7_parameter_validation [where env = "scenario_env scenario_db"
      and u = "\<lparr>user_id = 1, accessible_organizations = [42]\<rparr>" and company_id = 42
      and cache = empty_cache and g = "\<lparr>org_id = 42, org_is_active = True\<rparr>",
      OF scenario_user]
  have a: "fst (get_low_stock_alerts (scenario_env scenario_db) empty_cache 42
          (default_args\<lparr>arg_threshold_multiplier := Some 0\<rparr>))
     = (ErrorBody ''threshold_multiplier must be positive'', 400)"
    using w [of "default_args\<lparr>arg_threshold_multiplier := Some 0\<rparr>"]
    by (simp add: parse_simps default_args_def)
  have b: "fst (get_low_stock_alerts (scenario_env scenario_db) empty_cache 42
          (default_args\<lparr>arg_threshold_multiplier := Some (- 1)\<rparr>))
     = (ErrorBody ''threshold_multiplier must be positive'', 400)"
    using w [of "default_args\<lparr>arg_threshold_multiplier := Some (- 1)\<rparr>"]
    by (simp add: parse_simps default_args_def)
  have c: "fst (get_low_stock_alerts (scenario_env scenario_db) empty_cache 42
          (default_args\<lparr>arg_limit := Some 1001\<rparr>))
     = (ErrorBody ''limit cannot exceed 1000'', 400)"
    using w [of "default_args\<lparr>arg_limit := Some 1001\<rparr>"]
    by (simp add: parse_simps default_args_def)
  have d: "snd (fst (get_low_stock_alerts (scenario_env scenario_db) empty_cache 42
          (default_args\<lparr>arg_limit := Some 1000\<rparr>))) = 200"
    using w [of "default_args\<lparr>arg_limit := Some 1000\<rparr>"] scenario_org
    by (simp add: parse_simps default_args_def empty_cache_def)
  from a b c d show ?thesis by simp
qed

text \<open>
  C3 (as the code has it). The calls to the cache sit inside the one \<open>try\<close> block with no
  handler of their own: for a request with valid parameters, an error raised by the cache
  read, or by the cache write after a miss, ends the request with the generic 500 response;
  nothing is computed in its place and the cache is left as it was.
\<close>

theorem C3_cache_failure_gives_internal_error:
  assumes "current_user env = Some u" "has_access_to_organization u company_id"
    and "0 < parse_threshold_multiplier args" "parse_limit args \<le> 1000"
    and "db_available env"
    and "find_organization (db env) company_id = Some g" "org_is_active g"
  shows "(get_raises cache \<longrightarrow>
            get_low_stock_alerts env cache company_id args
              = ((InternalErrorBody ''An error occurred while generating alerts''
                    ''Please try again or contact support'' (next_request_id env), 500), cache))
       \<and> (\<not> get_raises cache \<and> setex_raises cache
            \<and> redis_get cache (utcnow env)
                  (LowStockAlertsKey company_id (arg_warehouse_id args)
                     (parse_threshold_multiplier args) (parse_include_no_sales args))
                = Inr None \<longrightarrow>
            get_low_stock_alerts env cache company_id args
              = ((InternalErrorBody ''An error occurred while generating alerts''
                    ''Please try again or contact support'' (next_request_id env), 500), cache))"
proof -
  note t = try_valid [OF assms, of cache]
  have a: "get_raises cache \<Longrightarrow>
      try_low_stock_alerts env cache company_id args = Inl CacheError"
    by (simp add: t redis_get_def)
  have b: "setex_raises cache \<Longrightarrow>
      redis_get cache (utcnow env)
        (LowStockAlertsKey company_id (arg_warehouse_id args)
           (parse_threshold_multiplier args) (parse_include_no_sales args)) = Inr None \<Longrightarrow>
      try_low_stock_alerts env cache company_id args = Inl CacheError"
    by (simp add: t redis_setex_def)
  from a b show ?thesis
    by (simp add: get_low_stock_alerts_def)
qed

text \<open>C3 (as the code has it) at the scenario request, for a failing read and a failing write.\<close>

theorem C3_cache_failure_gives_internal_error_witness:
  "get_low_stock_alerts (scenario_env scenario_db) (empty_cache\<lparr>get_raises := True\<rparr>) 42
       default_args
     = ((InternalErrorBody ''An error occurred while generating alerts''
           ''Please try again or contact support'' ''req-1'', 500),
        empty_cache\<lparr>get_raises := True\<rparr>)
   \<and> get_low_stock_alerts (scenario_env scenario_db) (empty_cache\<lparr>setex_raises := True\<rparr>) 42
       default_args
     = ((InternalErrorBody ''An error occurred while generating alerts''
           ''Please try again or contact support'' ''req-1'', 500),
        empty_cache\<lparr>setex_raises := True\<rparr>)"
proof -
  have p: "0 < parse_threshold_multiplier default_args" "parse_limit default_args \<le> 1000"
    by (simp_all add: parse_simps default_args_def)
  note w = C3_cache_failure_gives_internal_error [OF scenario_user p scenario_org(1)
      scenario_org(2) scenario_org(4)]
  have a: "get_low_stock_alerts (scenario_env scenario_db) (empty_cache\<lparr>get_raises := True\<rparr>)
       42 default_args
     = ((InternalErrorBody ''An error occurred while generating alerts''
           ''Please try again or contact support'' ''req-1'', 500),
        empty_cache\<lparr>get_raises := True\<rparr>)"
    using w [of "empty_cache\<lparr>get_raises := True\<rparr>"]
    by (simp add: empty_cache_def scenario_env_sel)
  have b: "get_low_stock_alerts (scenario_env scenario_db)
       (empty_cache\<lparr>setex_raises := True\<rparr>) 42 default_args
     = ((InternalErrorBody ''An error occurred while generating alerts''
           ''Please try again or contact support'' ''req-1'', 500),
        empty_cache\<lparr>setex_raises := True\<rparr>)"
    using w [of "empty_cache\<lparr>setex_raises := True\<rparr>"]
    by (simp add: empty_cache_def scenario_env_sel redis_get_def)
  from a b show ?thesis by simp
qed

text \<open>
  C3, counterexample to the claim as stated: with valid parameters and a cache whose read
  (or whose write) raises, the status is 500, not 200.
\<close>

theorem C3_counterexample:
  "snd (fst (get_low_stock_alerts (scenario_env scenario_db)
               (empty_cache\<lparr>get_raises := True\<rparr>) 42 default_args)) = 500
   \<and> snd (fst (get_low_stock_alerts (scenario_env scenario_db)
               (empty_cache\<lparr>setex_raises := True\<rparr>) 42 default_args)) = 500"
  by (simp add: get_low_stock_alerts_def try_after_auth [OF scenario_user] scenario_org
      parse_simps default_args_def empty_cache_def redis_get_def redis_setex_def)

lemma low_stock_query_warehouse:
  "r \<in> set (low_stock_query d company_id tm) \<Longrightarrow>
   item_warehouse_id r \<in> wh_id ` set (warehouses d)"
  by (auto simp add: low_stock_query_def stock_row_def)

lemma filter_missing_warehouse:
  assumes "w \<noteq> 0" "w \<notin> wh_id ` set (warehouses d)"
  shows "filter_by_warehouse (Some w) (low_stock_query d company_id tm) = []"
proof -
  have "\<forall>r \<in> set (low_stock_query d company_id tm). Some (item_warehouse_id r) \<noteq> Some w"
    using assms(2) low_stock_query_warehouse [of _ d company_id tm] by auto
  then have "filter (\<lambda>r. Some (item_warehouse_id r) = Some w) (low_stock_query d company_id tm) = []"
    by (simp add: filter_empty_conv)
  with assms(1) show ?thesis
    by (simp add: filter_by_warehouse_def truthy_id_def)
qed

lemma compute_response_missing_warehouse:
  assumes "w \<noteq> 0" "w \<notin> wh_id ` set (warehouses (db env))"
  shows "compute_response env company_id (Some w) tm include_no_sales limit
     = \<lparr> resp_alerts = [], resp_total_alerts = 0, resp_generated_at = utcnow env,
         resp_parameters =
           \<lparr> param_organization_id = company_id, param_warehouse_id = Some w,
             param_threshold_multiplier = tm, param_include_no_sales = include_no_sales,
             param_sales_period_days = 30 \<rparr> \<rparr>"
  by (simp add: compute_response_def filter_missing_warehouse [OF assms]
      loop_warehouse_id_def py_slice_to_def)

lemma filter_warehouse_zero:
  "filter_by_warehouse (Some 0) rows = filter_by_warehouse None rows"
  by (simp add: filter_by_warehouse_def truthy_id_def)

lemma compute_response_warehouse_zero:
  "resp_alerts (compute_response env company_id (Some 0) tm include_no_sales limit)
     = resp_alerts (compute_response env company_id None tm include_no_sales limit)"
  by (simp add: compute_response_def filter_warehouse_zero Let_def)

text \<open>
  C8 (as the code has it). The warehouse of the filter is never looked up. For a request
  with valid parameters, an available data source and a \<open>warehouse_id\<close> that names no
  existing warehouse:
  \<^item> the status is 404 exactly when the organization is missing or inactive;
  \<^item> for an existing, active organization, a working cache and no cached entry, a
    non-zero \<open>warehouse_id\<close> only restricts the query: the answer is the normal response
    with status 200, an empty list of alerts and \<open>total_alerts = 0\<close>;
  \<^item> under the same conditions a \<open>warehouse_id\<close> of 0 is not applied as a filter: the
    answer has status 200 and the alerts of the request without a filter.
\<close>

theorem C8_missing_warehouse_is_not_an_error:
  assumes "current_user env = Some u" "has_access_to_organization u company_id"
    and "0 < parse_threshold_multiplier args" "parse_limit args \<le> 1000"
    and "db_available env"
    and "arg_warehouse_id args = Some w"
    and "w \<notin> wh_id ` set (warehouses (db env))"
  shows "(snd (fst (get_low_stock_alerts env cache company_id args)) = 404)
           = (case find_organization (db env) company_id of
                None \<Rightarrow> True
              | Some g \<Rightarrow> \<not> org_is_active g)
       \<and> (find_organization (db env) company_id = Some g \<and> org_is_active g \<and> w \<noteq> 0
            \<and> \<not> get_raises cache \<and> \<not> setex_raises cache
            \<and> redis_get cache (utcnow env)
                  (LowStockAlertsKey company_id (Some w)
                     (parse_threshold_multiplier args) (parse_include_no_sales args))
                = Inr None \<longrightarrow>
            fst (get_low_stock_alerts env cache company_id args)
              = (AlertsBody
                   \<lparr> resp_alerts = [], resp_total_alerts = 0, resp_generated_at = utcnow env,
                     resp_parameters =
                       \<lparr> param_organization_id = company_id, param_warehouse_id = Some w,
                         param_threshold_multiplier = parse_threshold_multiplier args,
                         param_include_no_sales = parse_include_no_sales args,
                         param_sales_period_days = 30 \<rparr> \<rparr>, 200))
       \<and> (find_organization (db env) company_id = Some g \<and> org_is_active g \<and> w = 0
            \<and> \<not> get_raises cache \<and> \<not> setex_raises cache
            \<and> redis_get cache (utcnow env)
                  (LowStockAlertsKey company_id (Some w)
                     (parse_threshold_multiplier args) (parse_include_no_sales args))
                = Inr None \<longrightarrow>
            fst (get_low_stock_alerts env cache company_id args)
              = (AlertsBody
                   (compute_response env company_id (Some 0)
                      (parse_threshold_multiplier args) (parse_include_no_sales args)
                      (parse_limit args)), 200)
            \<and> resp_alerts
                 (compute_response env company_id (Some 0)
                    (parse_threshold_multiplier args) (parse_include_no_sales args)
                    (parse_limit args))
               = resp_alerts
                   (compute_response env company_id None
                      (parse_threshold_multiplier args) (parse_include_no_sales args)
                      (parse_limit args)))"
proof -
  let ?r = "get_low_stock_alerts env cache company_id args"
  let ?k = "LowStockAlertsKey company_id (Some w)
              (parse_threshold_multiplier args) (parse_include_no_sales args)"
  let ?e = "compute_response env company_id (Some w) (parse_threshold_multiplier args)
              (parse_include_no_sales args) (parse_limit args)"
  note t = try_after_auth [OF assms(1,2), of cache args, unfolded assms(6)]
  have closed: "snd (fst ?r) = 404"
    if "case find_organization (db env) company_id of
          None \<Rightarrow> True | Some g \<Rightarrow> \<not> org_is_active g"
    using that assms(3,4,5) by (simp add: get_low_stock_alerts_def t)
  have "open": "snd (fst ?r) \<noteq> 404"
    if "\<not> (case find_organization (db env) company_id of
             None \<Rightarrow> True | Some g \<Rightarrow> \<not> org_is_active g)"
    using that assms(3,4,5) redis_get_cases [of cache "utcnow env" ?k]
      redis_setex_cases [of cache "utcnow env" ?k 300 ?e]
    by (auto simp add: get_low_stock_alerts_def t split: option.splits sum.splits)
  have a: "(snd (fst ?r) = 404)
      = (case find_organization (db env) company_id of
           None \<Rightarrow> True | Some g \<Rightarrow> \<not> org_is_active g)"
    using closed "open" by blast
  have computed: "fst ?r = (AlertsBody ?e, 200)"
    if "find_organization (db env) company_id = Some g" "org_is_active g"
      "\<not> setex_raises cache" "redis_get cache (utcnow env) ?k = Inr None"
    using that assms(3,4,5)
    by (simp add: get_low_stock_alerts_def t redis_setex_def)
  have b: "fst ?r
      = (AlertsBody
           \<lparr> resp_alerts = [], resp_total_alerts = 0, resp_generated_at = utcnow env,
             resp_parameters =
               \<lparr> param_organization_id = company_id, param_warehouse_id = Some w,
                 param_threshold_multiplier = parse_threshold_multiplier args,
                 param_include_no_sales = parse_include_no_sales args,
                 param_sales_period_days = 30 \<rparr> \<rparr>, 200)"
    if "find_organization (db env) company_id = Some g" "org_is_active g" "w \<noteq> 0"
      "\<not> setex_raises cache" "redis_get cache (utcnow env) ?k = Inr None"
    using computed [OF that(1,2,4,5)]
    by (simp add: compute_response_missing_warehouse [OF that(3) assms(7)])
  have c: "fst ?r
      = (AlertsBody
           (compute_response env company_id (Some 0) (parse_threshold_multiplier args)
              (parse_include_no_sales args) (parse_limit args)), 200)"
    if "find_organization (db env) company_id = Some g" "org_is_active g" "w = 0"
      "\<not> setex_raises cache" "redis_get cache (utcnow env) ?k = Inr None"
    using computed [OF that(1,2,4,5)] that(3) by simp
  from a b c show ?thesis
    by (auto simp add: compute_response_warehouse_zero)
qed

text \<open>
  C8 (as the code has it) at the scenario request: filtered by warehouse 99, filtered by
  warehouse 0, and filtered by warehouse 99 with the organization switched off.
\<close>

theorem C8_missing_warehouse_is_not_an_error_witness:
  "fst (get_low_stock_alerts (scenario_env scenario_db) empty_cache 42
          (default_args\<lparr>arg_warehouse_id := Some 99\<rparr>))
     = (AlertsBody
          \<lparr> resp_alerts = [], resp_total_alerts = 0, resp_generated_at = 1086400,
            resp_parameters =
              \<lparr> param_organization_id = 42, param_warehouse_id = Some 99,
                param_threshold_multiplier = 1, param_include_no_sales = False,
                param_sales_period_days = 30 \<rparr> \<rparr>, 200)
   \<and> fst (get_low_stock_alerts (scenario_env scenario_db) empty_cache 42
          (default_args\<lparr>arg_warehouse_id := Some 0\<rparr>))
     = (AlertsBody (compute_response (scenario_env scenario_db) 42 (Some 0) 1 False 100), 200)
   \<and> map alert_product_id
        (resp_alerts (compute_response (scenario_env scenario_db) 42 (Some 0) 1 False 100))
     = [1]
   \<and> snd (fst (get_low_stock_alerts (scenario_env closed_org_db) empty_cache 42
          (default_args\<lparr>arg_warehouse_id := Some 99\<rparr>))) = 404"
proof -
  let ?args = "\<lambda>w. default_args\<lparr>arg_warehouse_id := Some w\<rparr>"
  let ?org = "\<lparr>org_id = 42, org_is_active = True\<rparr>"
  have p: "0 < parse_threshold_multiplier (?args w)" "parse_limit (?args w) \<le> 1000"
    "arg_warehouse_id (?args w) = Some w" for w
    by (simp_all add: parse_simps default_args_def)
  have v: "parse_threshold_multiplier (?args w) = 1" "parse_include_no_sales (?args w) = False"
    "parse_limit (?args w) = 100" for w
    by (simp_all add: parse_simps default_args_def)
  have m: "99 \<notin> wh_id ` set (warehouses (db (scenario_env scenario_db)))"
    "0 \<notin> wh_id ` set (warehouses (db (scenario_env scenario_db)))"
    "99 \<notin> wh_id ` set (warehouses (db (scenario_env closed_org_db)))"
    by (simp_all add: scenario_env_sel scenario_db_def closed_org_db_def)
  have c: "\<not> get_raises empty_cache" "\<not> setex_raises empty_cache"
    "redis_get empty_cache t k = Inr None" for t k
    by (simp_all add: empty_cache_def redis_get_def)
  have closed: "find_organization closed_org_db 42
      = Some \<lparr>org_id = 42, org_is_active = False\<rparr>"
    by (simp add: closed_org_db_def find_organization_def)
  have org: "find_organization scenario_db 42 = Some ?org" "org_is_active ?org"
    by (simp_all add: scenario_db_def find_organization_def)
  from C8_missing_warehouse_is_not_an_error [OF scenario_user p(1,2) scenario_org(1) p(3) m(1),
      of empty_cache ?org]
  have a: "fst (get_low_stock_alerts (scenario_env scenario_db) empty_cache 42 (?args 99))
     = (AlertsBody
          \<lparr> resp_alerts = [], resp_total_alerts = 0, resp_generated_at = 1086400,
            resp_parameters =
              \<lparr> param_organization_id = 42, param_warehouse_id = Some 99,
                param_threshold_multiplier = 1, param_include_no_sales = False,
                param_sales_period_days = 30 \<rparr> \<rparr>, 200)"
    by (simp add: v c org scenario_env_sel)
  from C8_missing_warehouse_is_not_an_error [OF scenario_user p(1,2) scenario_org(1) p(3) m(2),
      of empty_cache ?org]
  have b: "fst (get_low_stock_alerts (scenario_env scenario_db) empty_cache 42 (?args 0))
     = (AlertsBody (compute_response (scenario_env scenario_db) 42 (Some 0) 1 False 100), 200)"
    by (simp add: v c org scenario_env_sel)
  have b': "map alert_product_id
        (resp_alerts (compute_response (scenario_env scenario_db) 42 (Some 0) 1 False 100))
     = [1]"
    by code_simp
  from C8_missing_warehouse_is_not_an_error [OF scenario_user p(1,2) scenario_org(1) p(3) m(3),
      of empty_cache ?org]
  have d: "snd (fst (get_low_stock_alerts (scenario_env closed_org_db) empty_cache 42
      (?args 99))) = 404"
    by (simp add: closed scenario_env_sel)
  from a b b' d show ?thesis by simp
qed

text \<open>
  C8, counterexample to the claim as stated: warehouse 99 does not exist, and the request
  filtered by it is answered with status 200, not with a not-found error.
\<close>

theorem C8_counterexample:
  "find (\<lambda>x. wh_id x = 99) (warehouses scenario_db) = None
   \<and> snd (fst (get_low_stock_alerts (scenario_env scenario_db) empty_cache 42
          (default_args\<lparr>arg_warehouse_id := Some 99\<rparr>))) = 200"
proof
  show "find (\<lambda>x. wh_id x = 99) (warehouses scenario_db) = None"
    by (simp add: scenario_db_def)
  show "snd (fst (get_low_stock_alerts (scenario_env scenario_db) empty_cache 42
          (default_args\<lparr>arg_warehouse_id := Some 99\<rparr>))) = 200"
    by (simp add: get_low_stock_alerts_def try_after_auth [OF scenario_user] scenario_org
        parse_simps default_args_def empty_cache_def redis_get_def redis_setex_def)
qed

lemma redis_get_after_setex:
  assumes "redis_setex r t k ttl v = Inr r'" "t' < t + ttl" "\<not> get_raises r"
  shows "redis_get r' t' k = Inr (Some v)"
  using assms by (auto simp add: redis_setex_def redis_get_def split: if_splits)

text \<open>
  C9. The cache key holds the organization, the warehouse filter, the multiplier and the
  flag, not the limit. When a first request with valid parameters misses a working cache,
  its response, truncated with its own limit, is stored for 300 seconds; a second request
  that differs from it only in the limit and arrives before the entry expires is answered
  with that stored response as it is.
\<close>

theorem C9_cached_response_ignores_limit:
  assumes "current_user env = Some u" "has_access_to_organization u company_id"
    and "0 < parse_threshold_multiplier args" "parse_limit args \<le> 1000"
    and "db_available env"
    and "find_organization (db env) company_id = Some g" "org_is_active g"
    and "\<not> get_raises cache" "\<not> setex_raises cache"
    and "redis_get cache (utcnow env)
           (LowStockAlertsKey company_id (arg_warehouse_id args)
              (parse_threshold_multiplier args) (parse_include_no_sales args)) = Inr None"
    and "current_user env' = Some u'" "has_access_to_organization u' company_id"
    and "db_available env'"
    and "find_organization (db env') company_id = Some g'" "org_is_active g'"
    and "utcnow env' < utcnow env + 300"
    and "limit' \<le> 1000"
  shows "fst (get_low_stock_alerts env cache company_id args)
           = (AlertsBody
                (compute_response env company_id (arg_warehouse_id args)
                   (parse_threshold_multiplier args) (parse_include_no_sales args)
                   (parse_limit args)), 200)
       \<and> fst (get_low_stock_alerts env'
                (snd (get_low_stock_alerts env cache company_id args)) company_id
                (args\<lparr>arg_limit := Some limit'\<rparr>))
           = fst (get_low_stock_alerts env cache company_id args)"
proof -
  let ?k = "LowStockAlertsKey company_id (arg_warehouse_id args)
              (parse_threshold_multiplier args) (parse_include_no_sales args)"
  let ?e = "compute_response env company_id (arg_warehouse_id args)
              (parse_threshold_multiplier args) (parse_include_no_sales args)
              (parse_limit args)"
  let ?args' = "args\<lparr>arg_limit := Some limit'\<rparr>"
  from assms(9) obtain cache' where s: "redis_setex cache (utcnow env) ?k 300 ?e = Inr cache'"
    using redis_setex_cases [of cache "utcnow env" ?k 300 ?e] by auto
  have first_req: "get_low_stock_alerts env cache company_id args = ((AlertsBody ?e, 200), cache')"
    by (simp add: get_low_stock_alerts_def try_valid [OF assms(1-7)] assms(10) s)
  have g': "\<not> get_raises cache'"
    using s assms(8,9) by (auto simp add: redis_setex_def)
  have hit: "redis_get cache' (utcnow env') ?k = Inr (Some ?e)"
    using redis_get_after_setex [OF s assms(16) assms(8)] .
  have p': "parse_threshold_multiplier ?args' = parse_threshold_multiplier args"
    "parse_include_no_sales ?args' = parse_include_no_sales args"
    "arg_warehouse_id ?args' = arg_warehouse_id args"
    "parse_limit ?args' = limit'"
    by (simp_all add: parse_threshold_multiplier_def parse_include_no_sales_def parse_limit_def)
  have v': "0 < parse_threshold_multiplier ?args'" "parse_limit ?args' \<le> 1000"
    using assms(3,17) by (simp_all add: p')
  have second_req: "fst (get_low_stock_alerts env' cache' company_id ?args') = (AlertsBody ?e, 200)"
    by (simp add: get_low_stock_alerts_def try_valid [OF assms(11,12) v' assms(13,14,15)]
        p'(1-3) hit)
  from first_req second_req show ?thesis by simp
qed


text \<open>
  C9 at two concrete requests: the first with limit 1, the second, 100 seconds later, with
  limit 10. The second is answered with the one alert of the first, where its own
  computation would give two.
\<close>

theorem C9_cached_response_ignores_limit_witness:
  "fst (get_low_stock_alerts ((scenario_env slow_seller_db)\<lparr>utcnow := 1086500\<rparr>)
          (snd (get_low_stock_alerts (scenario_env slow_seller_db) empty_cache 42
                  (default_args\<lparr>arg_include_no_sales := Some ''true'', arg_limit := Some 1\<rparr>)))
          42
          (default_args\<lparr>arg_include_no_sales := Some ''true'', arg_limit := Some 10\<rparr>))
     = (AlertsBody (compute_response (scenario_env slow_seller_db) 42 None 1 True 1), 200)
   \<and> resp_total_alerts (compute_response (scenario_env slow_seller_db) 42 None 1 True 1) = 1
   \<and> resp_total_alerts
        (compute_response ((scenario_env slow_seller_db)\<lparr>utcnow := 1086500\<rparr>) 42 None 1 True 10)
       = 2"
proof -
  let ?env = "scenario_env slow_seller_db"
  let ?env' = "?env\<lparr>utcnow := 1086500\<rparr>"
  let ?args = "default_args\<lparr>arg_include_no_sales := Some ''true'', arg_limit := Some 1\<rparr>"
  have p: "parse_threshold_multiplier ?args = 1" "parse_limit ?args = 1"
    "parse_include_no_sales ?args = True" "arg_warehouse_id ?args = None"
    by (simp_all add: parse_simps default_args_def)
  have v: "0 < parse_threshold_multiplier ?args" "parse_limit ?args \<le> 1000"
    by (simp_all add: p)
  have c: "\<not> get_raises empty_cache" "\<not> setex_raises empty_cache"
    "redis_get empty_cache (utcnow ?env)
       (LowStockAlertsKey 42 (arg_warehouse_id ?args) (parse_threshold_multiplier ?args)
          (parse_include_no_sales ?args)) = Inr None"
    by (simp_all add: empty_cache_def redis_get_def)
  have e': "current_user ?env' = Some \<lparr>user_id = 1, accessible_organizations = [42]\<rparr>"
    "db_available ?env'"
    "find_organization (db ?env') 42 = Some \<lparr>org_id = 42, org_is_active = True\<rparr>"
    "utcnow ?env' < utcnow ?env + 300" "(10::int) \<le> 1000"
    by (simp_all add: scenario_env_def slow_seller_db_def find_organization_def)
  have args': "?args\<lparr>arg_limit := Some 10\<rparr>
      = default_args\<lparr>arg_include_no_sales := Some ''true'', arg_limit := Some 10\<rparr>"
    by simp
  from C9_cached_response_ignores_limit [OF scenario_user v scenario_org(1) scenario_org(3)
      scenario_org(4) c e'(1) scenario_user(2) e'(2) e'(3) scenario_org(4) e'(4) e'(5)]
  have "fst (get_low_stock_alerts ?env' (snd (get_low_stock_alerts ?env empty_cache 42 ?args))
          42 (default_args\<lparr>arg_include_no_sales := Some ''true'', arg_limit := Some 10\<rparr>))
     = (AlertsBody (compute_response ?env 42 None 1 True 1), 200)"
    by (simp only: args' p)
  moreover have "resp_total_alerts (compute_response ?env 42 None 1 True 1) = 1"
    by code_simp
  moreover have "resp_total_alerts (compute_response ?env' 42 None 1 True 10) = 2"
    by code_simp
  ultimately show ?thesis by simp
qed

text \<open>
  What the sort of step 10 does give: the alerts are in ascending order of the pair
  (days, with 999 for absent days, and stock), before and after the limit is applied.
\<close>

lemma alerts_sorted_by_code_key:
  "sorted (map sort_key_of
     (resp_alerts (compute_response env company_id warehouse_id tm include_no_sales limit)))"
proof -
  have "sorted (map sort_key_of (py_slice_to limit (sort_key sort_key_of xs)))" for xs
    by (simp add: py_slice_to_def take_map [symmetric] sorted_wrt_take)
  then show ?thesis
    by (simp add: compute_response_def Let_def)
qed

text \<open>
  C2, evaluated at a failing input. Product 1 has stock 40 and sold one unit in 30 days:
  1200 days to stockout. Product 2 has stock 45 and no sales: absent days, which the sort
  key replaces by 999. The response lists product 2 before product 1, although
  (1200, 40) is below (infinity, 45) in the order of the specification.
\<close>

theorem C2_sentinel_999_breaks_order:
  "fst (get_low_stock_alerts (scenario_env slow_seller_db) empty_cache 42
          (default_args\<lparr>arg_include_no_sales := Some ''true''\<rparr>))
     = (AlertsBody (compute_response (scenario_env slow_seller_db) 42 None 1 True 100), 200)
   \<and> map alert_product_id
        (resp_alerts (compute_response (scenario_env slow_seller_db) 42 None 1 True 100))
       = [2, 1]
   \<and> map alert_days_until_stockout
        (resp_alerts (compute_response (scenario_env slow_seller_db) 42 None 1 True 100))
       = [None, Some 1200]
   \<and> map alert_current_stock
        (resp_alerts (compute_response (scenario_env slow_seller_db) 42 None 1 True 100))
       = [45, 40]
   \<and> \<not> sorted_wrt spec_key_le
        (resp_alerts (compute_response (scenario_env slow_seller_db) 42 None 1 True 100))"
proof -
  let ?e = "compute_response (scenario_env slow_seller_db) 42 None 1 True 100"
  have "fst (get_low_stock_alerts (scenario_env slow_seller_db) empty_cache 42
          (default_args\<lparr>arg_include_no_sales := Some ''true''\<rparr>)) = (AlertsBody ?e, 200)"
    by (simp add: get_low_stock_alerts_def try_after_auth [OF scenario_user] scenario_org
        parse_simps default_args_def empty_cache_def redis_get_def redis_setex_def)
  moreover have "map alert_product_id (resp_alerts ?e) = [2, 1]"
    by code_simp
  moreover have "map alert_days_until_stockout (resp_alerts ?e) = [None, Some 1200]"
    by code_simp
  moreover have "map alert_current_stock (resp_alerts ?e) = [45, 40]"
    by code_simp
  moreover have "\<not> sorted_wrt spec_key_le (resp_alerts ?e)"
    by code_simp
  ultimately show ?thesis by simp
qed

section \<open>Properties of \<open>create_product\<close>\<close>

lemma fold_max_lower: "(a::int) \<le> fold max xs a"
proof (induction xs arbitrary: a)
  case Nil
  show ?case by simp
next
  case (Cons x xs)
  have "a \<le> max x a" by simp
  also have "\<dots> \<le> fold max xs (max x a)" by (rule Cons.IH)
  finally show ?case by simp
qed

lemma fold_max_upper: "x \<in> set xs \<Longrightarrow> (x::int) \<le> fold max xs a"
proof (induction xs arbitrary: a)
  case Nil
  then show ?case by simp
next
  case (Cons y ys)
  show ?case
  proof (cases "x = y")
    case True
    have "x \<le> max y a" using True by simp
    also have "\<dots> \<le> fold max ys (max y a)" by (rule fold_max_lower)
    finally show ?thesis by simp
  next
    case False
    with Cons.prems have "x \<in> set ys" by simp
    then show ?thesis using Cons.IH by simp
  qed
qed

lemma next_product_id_fresh:
  "p \<in> set (cat_products c) \<Longrightarrow> cp_id p < next_product_id c"
  using fold_max_upper [of "cp_id p" "map cp_id (cat_products c)" 0]
  by (simp add: next_product_id_def)

lemma create_product_reaches_store:
  assumes "data_name data = Some name" "data_sku data = Some sku"
    and "data_price data = Some (Number price)" "0 \<le> price"
    and "data_warehouse_id data = Some w"
    and "data_initial_quantity data = Some (Integer q)" "0 \<le> q"
    and "w \<in> set (cat_warehouses c)" "has_access_to_warehouse u w"
    and "sku \<notin> set (map cp_sku (cat_products c))"
  shows "create_product c (Some u) now data = store_product c u now name sku price w q"
proof -
  have m: "missing_fields data = []"
    using assms(1,2,3,5,6) by (simp add: missing_fields_def)
  have f: "find (\<lambda>p. cp_sku p = sku) (cat_products c) = None"
    using assms(10) by (auto simp add: find_None_iff)
  show ?thesis
    using assms(4,7,8,9)
    by (simp add: create_product_def m assms(1,2,3,5,6) create_checked_def f)
qed

text \<open>
  C10. The uniqueness check looks for the SKU as sent, the row stores it stripped and in
  upper case. When the SKU as sent equals no stored SKU while its normalized form is the SKU
  of an existing product, the check finds nothing: without a UNIQUE constraint on the
  column the request is answered with 201 and the catalog holds a second product, with a
  new identifier, whose SKU equals the existing one; with the constraint the insert is
  refused by the database, not by the check.
\<close>

theorem C10_sku_check_uses_raw_sku:
  assumes "data_name data = Some name" "data_sku data = Some sku"
    and "data_price data = Some (Number price)" "0 \<le> price"
    and "data_warehouse_id data = Some w"
    and "data_initial_quantity data = Some (Integer q)" "0 \<le> q"
    and "w \<in> set (cat_warehouses c)" "has_access_to_warehouse u w"
    and "sku \<notin> set (map cp_sku (cat_products c))"
    and "existing \<in> set (cat_products c)" "cp_sku existing = py_upper (py_strip sku)"
  shows "(\<not> cat_sku_is_unique c \<longrightarrow>
            snd (fst (create_product c (Some u) now data)) = 201
          \<and> existing \<in> set (cat_products (snd (create_product c (Some u) now data)))
          \<and> last (cat_products (snd (create_product c (Some u) now data)))
               \<in> set (cat_products (snd (create_product c (Some u) now data)))
          \<and> cp_sku (last (cat_products (snd (create_product c (Some u) now data))))
               = cp_sku existing
          \<and> cp_id (last (cat_products (snd (create_product c (Some u) now data))))
               \<noteq> cp_id existing)
       \<and> (cat_sku_is_unique c \<longrightarrow>
            create_product c (Some u) now data = ((ConstraintViolation, 409), c))"
proof -
  note r = create_product_reaches_store [OF assms(1-10), of now]
  have fresh: "cp_id existing \<noteq> next_product_id c"
    using next_product_id_fresh [OF assms(11)] by simp
  have stored: "py_upper (py_strip sku) \<in> set (map cp_sku (cat_products c))"
    using assms(11) assms(12) [symmetric] by (simp add: image_iff) blast
  have a: "cat_sku_is_unique c \<Longrightarrow>
      create_product c (Some u) now data = ((ConstraintViolation, 409), c)"
    using stored by (simp add: r store_product_def Let_def)
  have b: "\<not> cat_sku_is_unique c \<Longrightarrow>
      snd (fst (create_product c (Some u) now data)) = 201
      \<and> existing \<in> set (cat_products (snd (create_product c (Some u) now data)))
      \<and> last (cat_products (snd (create_product c (Some u) now data)))
           \<in> set (cat_products (snd (create_product c (Some u) now data)))
      \<and> cp_sku (last (cat_products (snd (create_product c (Some u) now data))))
           = cp_sku existing
      \<and> cp_id (last (cat_products (snd (create_product c (Some u) now data))))
           \<noteq> cp_id existing"
    using assms(11,12) fresh by (simp add: r store_product_def Let_def)
  from a b show ?thesis by blast
qed

text \<open>
  C10 at the request of the claim: \<open>abc\<close> is sent while \<open>ABC\<close> is stored. The check passes
  and the catalog then holds two products with the SKU \<open>ABC\<close>.
\<close>

theorem C10_sku_check_uses_raw_sku_witness:
  "snd (fst (create_product abc_catalog (Some abc_user) 100 (abc_data ''abc''))) = 201
   \<and> map cp_sku (cat_products (snd (create_product abc_catalog (Some abc_user) 100
                                      (abc_data ''abc''))))
       = [''ABC'', ''ABC'']
   \<and> map cp_id (cat_products (snd (create_product abc_catalog (Some abc_user) 100
                                     (abc_data ''abc''))))
       = [1, 2]"
proof -
  let ?existing = "\<lparr>cp_id = 1, cp_name = ''Anvil'', cp_sku = ''ABC'', cp_price = 10,
                     cp_created_by = 1, cp_created_at = 0\<rparr>"
  have d: "data_name (abc_data ''abc'') = Some ''Anvil two''"
    "data_sku (abc_data ''abc'') = Some ''abc''"
    "data_price (abc_data ''abc'') = Some (Number 12)" "(0::rat) \<le> 12"
    "data_warehouse_id (abc_data ''abc'') = Some 7"
    "data_initial_quantity (abc_data ''abc'') = Some (Integer 4)" "(0::int) \<le> 4"
    by (simp_all add: abc_data_def)
  have c: "7 \<in> set (cat_warehouses abc_catalog)" "has_access_to_warehouse abc_user 7"
    "''abc'' \<notin> set (map cp_sku (cat_products abc_catalog))"
    "?existing \<in> set (cat_products abc_catalog)"
    "cp_sku ?existing = py_upper (py_strip ''abc'')"
    "\<not> cat_sku_is_unique abc_catalog"
    by (simp_all add: abc_catalog_def abc_user_def has_access_to_warehouse_def py_upper_def
        py_strip_def is_space_def py_upper_char_def)
  from C10_sku_check_uses_raw_sku [OF d c(1-5), of 100] c(6)
  have "snd (fst (create_product abc_catalog (Some abc_user) 100 (abc_data ''abc''))) = 201"
    by simp
  moreover have "map cp_sku (cat_products (snd (create_product abc_catalog (Some abc_user) 100
      (abc_data ''abc'')))) = [''ABC'', ''ABC'']"
    by code_simp
  moreover have "map cp_id (cat_products (snd (create_product abc_catalog (Some abc_user) 100
      (abc_data ''abc'')))) = [1, 2]"
    by code_simp
  ultimately show ?thesis by simp
qed

end
